theory Spec2Isabelle
  imports Main "HOL-Library.Word"
begin

unbundle bit_operations_syntax

section \<open>Memory model and constants of coap.h\<close>

text \<open>
  The codec of \<^verbatim>\<open>coap.c\<close> works on a caller-owned byte array through raw pointers.
  The array is modelled as a list of bytes; a pointer into it is the offset from
  \<^verbatim>\<open>pBuffer\<close> (pointers handed to the codec are assumed to point into the array, so
  none of them is \<^verbatim>\<open>NULL\<close>). The C code keeps the number of bytes in use in a separate
  \<^verbatim>\<open>uint16_t\<close> counter, which may be smaller than the array.

  Results are options: \<open>None\<close> stands for undefined behaviour of the C program, that is
  an access outside the array or the use of a local that was never assigned.
  C integer types are words of their width; an arithmetic expression is evaluated in
  \<open>int\<close> (C promotes every operand here to \<^verbatim>\<open>int\<close>, and no value leaves 32 bits) and is
  truncated where the source stores it in a narrower variable.
\<close>

type_synonym byte = "8 word"

definition rd :: "byte list \<Rightarrow> nat \<Rightarrow> byte option" where
  "rd m i = (if i < length m then Some (m ! i) else None)"

definition wr :: "byte list \<Rightarrow> nat \<Rightarrow> byte \<Rightarrow> byte list option" where
  "wr m i v = (if i < length m then Some (m[i := v]) else None)"

text \<open>\<^verbatim>\<open>memcpy(dst, src, n)\<close> into the array at offset \<open>dst\<close>, from a separate object.\<close>

definition memcpy_to :: "byte list \<Rightarrow> nat \<Rightarrow> byte list \<Rightarrow> nat \<Rightarrow> byte list option" where
  "memcpy_to m dst src n =
     (if n \<le> length src \<and> dst + n \<le> length m
      then Some (take dst m @ take n src @ drop (dst + n) m)
      else None)"

definition COAP_HDR_BYTES :: int where "COAP_HDR_BYTES = 4"
definition MAX_BUFFER_SIZE :: int where "MAX_BUFFER_SIZE = 1460"
definition COAP_VERSION :: int where "COAP_VERSION = 1"
definition COAP_PAYLOAD_MARKER :: byte where "COAP_PAYLOAD_MARKER = 0xFF"

text \<open>The enum \<^verbatim>\<open>CoapErrorCode\<close>, at whatever width the returning function has.\<close>

definition COAP_OK :: "'a::len word" where "COAP_OK = 0"
definition COAP_INVALID_PACKET :: "'a::len word" where "COAP_INVALID_PACKET = - 1"
definition COAP_INVALID_VERSION :: "'a::len word" where "COAP_INVALID_VERSION = - 2"
definition COAP_INVALID_TOKEN_LENGTH :: "'a::len word" where "COAP_INVALID_TOKEN_LENGTH = - 3"
definition COAP_UNKNOWN_CODE :: "'a::len word" where "COAP_UNKNOWN_CODE = - 4"
definition COAP_OPTIONS_OUT_OF_ORDER :: "'a::len word" where "COAP_OPTIONS_OUT_OF_ORDER = - 6"
definition COAP_INSUFFICIENT_BUFFER :: "'a::len word" where "COAP_INSUFFICIENT_BUFFER = - 7"
definition COAP_FOUND_PAYLOAD_MARKER :: "'a::len word" where "COAP_FOUND_PAYLOAD_MARKER = - 8"
definition COAP_END_OF_PACKET :: "'a::len word" where "COAP_END_OF_PACKET = - 9"
definition COAP_INVALID_PAYLOAD :: "'a::len word" where "COAP_INVALID_PAYLOAD = - 10"
definition COAP_INVALID_OPTION :: "'a::len word" where "COAP_INVALID_OPTION = - 11"
definition COAP_INVALID_TYPE :: "'a::len word" where "COAP_INVALID_TYPE = - 16"

section \<open>Validity predicates\<close>

text \<open>\<^verbatim>\<open>bool coapVersionIsValid(int8_t version)\<close>\<close>

definition coapVersionIsValid :: "8 word \<Rightarrow> bool" where
  "coapVersionIsValid version = (if sint version \<noteq> COAP_VERSION then False else True)"

text \<open>\<^verbatim>\<open>bool coapTypeIsValid(int8_t type)\<close>\<close>

definition coapTypeIsValid :: "8 word \<Rightarrow> bool" where
  "coapTypeIsValid type = (if sint type > 3 \<or> sint type < 0 then False else True)"

text \<open>\<^verbatim>\<open>bool coapTokenLengthIsValid(int8_t tokenLength)\<close>\<close>

definition coapTokenLengthIsValid :: "8 word \<Rightarrow> bool" where
  "coapTokenLengthIsValid tokenLength = (if sint tokenLength \<ge> 9 then False else True)"

text \<open>\<^verbatim>\<open>bool coapCodeIsValid(int16_t code)\<close>: the switch over the enum \<^verbatim>\<open>CoapCode\<close>.\<close>

definition coapCodeIsValid :: "16 word \<Rightarrow> bool" where
  "coapCodeIsValid code =
     (sint code \<in> {0x00, 0x01, 0x02, 0x03, 0x04,
                   0x41, 0x42, 0x43, 0x44, 0x45,
                   0x80, 0x81, 0x82, 0x83, 0x84, 0x85, 0x86, 0x8C, 0x8D, 0x8F,
                   0xA0, 0xA1, 0xA2, 0xA3, 0xA4, 0xA5})"

text \<open>\<^verbatim>\<open>bool coapOptionIsValid(uint8_t option)\<close>\<close>

definition coapOptionIsValid :: "8 word \<Rightarrow> bool" where
  "coapOptionIsValid option =
     (if option = 2 \<or> option = 9 \<or> option = 10 then False
      else if option = 128 \<or> option = 132 \<or> option = 136 \<or> option = 140 then False
      else True)"

section \<open>Header accessors\<close>

text \<open>\<^verbatim>\<open>int8_t coapGetVersion(uint8_t *pBuffer, uint16_t bufferLength)\<close>\<close>

definition coapGetVersion :: "byte list \<Rightarrow> 16 word \<Rightarrow> 8 word option" where
  "coapGetVersion pBuffer bufferLength =
     (if uint bufferLength < COAP_HDR_BYTES then Some COAP_INVALID_PACKET
      else case rd pBuffer 0 of
        None \<Rightarrow> None
      | Some byte \<Rightarrow>
          (let version = drop_bit 6 byte
           in if \<not> coapVersionIsValid version then Some COAP_INVALID_VERSION
              else Some version))"

text \<open>\<^verbatim>\<open>int8_t coapGetType(uint8_t *pBuffer, uint16_t bufferLength)\<close>\<close>

definition coapGetType :: "byte list \<Rightarrow> 16 word \<Rightarrow> 8 word option" where
  "coapGetType pBuffer bufferLength =
     (if uint bufferLength < COAP_HDR_BYTES then Some COAP_INVALID_PACKET
      else case rd pBuffer 0 of
        None \<Rightarrow> None
      | Some byte \<Rightarrow>
          (let type = drop_bit 4 byte AND 0x03
           in if \<not> coapTypeIsValid type then Some COAP_INVALID_TYPE
              else Some type))"

text \<open>\<^verbatim>\<open>int8_t coapGetTokenLength(uint8_t *pBuffer, uint16_t bufferLength)\<close>\<close>

definition coapGetTokenLength :: "byte list \<Rightarrow> 16 word \<Rightarrow> 8 word option" where
  "coapGetTokenLength pBuffer bufferLength =
     (if uint bufferLength < COAP_HDR_BYTES then Some COAP_INVALID_PACKET
      else case rd pBuffer 0 of
        None \<Rightarrow> None
      | Some byte \<Rightarrow>
          (let tokenLength = byte AND 0x0F
           in if \<not> coapTokenLengthIsValid tokenLength then Some COAP_INVALID_TOKEN_LENGTH
              else Some tokenLength))"

text \<open>
  \<^verbatim>\<open>int16_t coapGetCode(uint8_t *pBuffer, uint16_t bufferLength)\<close>. The local
  \<^verbatim>\<open>code\<close> is an \<^verbatim>\<open>int8_t\<close>: the byte is stored in 8 bits and sign-extended both for
  the validity test and for the return value.
\<close>

definition coapGetCode :: "byte list \<Rightarrow> 16 word \<Rightarrow> 16 word option" where
  "coapGetCode pBuffer bufferLength =
     (if uint bufferLength < COAP_HDR_BYTES then Some COAP_INVALID_PACKET
      else case rd pBuffer 1 of
        None \<Rightarrow> None
      | Some byte \<Rightarrow>
          (let code = (ucast (ucast byte :: 16 word) :: 8 word)
           in if \<not> coapCodeIsValid (scast code) then Some COAP_UNKNOWN_CODE
              else Some (scast code)))"

text \<open>
  \<^verbatim>\<open>int16_t coapGetMessageId(uint8_t *pBuffer, uint16_t bufferLength)\<close>:
  \<^verbatim>\<open>messageId = ((int16_t)(firstHalf) << 8 | (int16_t)(secondHalf))\<close>, stored in an
  \<^verbatim>\<open>int16_t\<close>.
\<close>

definition coapGetMessageId :: "byte list \<Rightarrow> 16 word \<Rightarrow> 16 word option" where
  "coapGetMessageId pBuffer bufferLength =
     (if uint bufferLength < COAP_HDR_BYTES then Some COAP_INVALID_PACKET
      else case rd pBuffer 2 of
        None \<Rightarrow> None
      | Some firstHalf \<Rightarrow>
          (case rd pBuffer 3 of
             None \<Rightarrow> None
           | Some secondHalf \<Rightarrow>
               Some (push_bit 8 (ucast firstHalf) OR ucast secondHalf)))"

section \<open>Header mutators\<close>

text \<open>
  Each mutator returns its \<^verbatim>\<open>int8_t\<close> result together with the array and the length
  counter \<^verbatim>\<open>*pBufferLength\<close> as it leaves them.
\<close>

text \<open>\<^verbatim>\<open>int8_t coapSetVersion(uint8_t *pBuffer, uint16_t *pBufferLength, uint8_t version)\<close>\<close>

definition coapSetVersion ::
  "byte list \<Rightarrow> 16 word \<Rightarrow> 8 word \<Rightarrow> (8 word \<times> byte list \<times> 16 word) option" where
  "coapSetVersion pBuffer bufferLength version =
     (if \<not> coapVersionIsValid version then Some (COAP_INVALID_VERSION, pBuffer, bufferLength)
      else case rd pBuffer 0 of
        None \<Rightarrow> None
      | Some b0 \<Rightarrow>
          (case wr pBuffer 0 (push_bit 6 version OR (b0 AND 0x3F)) of
             None \<Rightarrow> None
           | Some m \<Rightarrow> Some (COAP_OK, m, 1)))"

text \<open>\<^verbatim>\<open>int8_t coapSetType(uint8_t *pBuffer, uint16_t *pBufferLength, uint8_t type)\<close>\<close>

definition coapSetType ::
  "byte list \<Rightarrow> 16 word \<Rightarrow> 8 word \<Rightarrow> (8 word \<times> byte list \<times> 16 word) option" where
  "coapSetType pBuffer bufferLength type =
     (if \<not> coapTypeIsValid type then Some (COAP_INVALID_TYPE, pBuffer, bufferLength)
      else case rd pBuffer 0 of
        None \<Rightarrow> None
      | Some b0 \<Rightarrow>
          (case wr pBuffer 0 (push_bit 4 type OR (b0 AND 0xCF)) of
             None \<Rightarrow> None
           | Some m \<Rightarrow> Some (COAP_OK, m, 1)))"

text \<open>
  \<^verbatim>\<open>int8_t coapSetTokenLength(uint8_t *pBuffer, uint16_t *pBufferLength, uint8_t tokenLength)\<close>:
  \<^verbatim>\<open>pBuffer[0] = (tokenLength & 0x0F) | pBuffer[0]; *pBufferLength = 1;\<close>
\<close>

definition coapSetTokenLength ::
  "byte list \<Rightarrow> 16 word \<Rightarrow> 8 word \<Rightarrow> (8 word \<times> byte list \<times> 16 word) option" where
  "coapSetTokenLength pBuffer bufferLength tokenLength =
     (if \<not> coapTokenLengthIsValid tokenLength
      then Some (COAP_INVALID_TOKEN_LENGTH, pBuffer, bufferLength)
      else case rd pBuffer 0 of
        None \<Rightarrow> None
      | Some b0 \<Rightarrow>
          (case wr pBuffer 0 ((tokenLength AND 0x0F) OR b0) of
             None \<Rightarrow> None
           | Some m \<Rightarrow> Some (COAP_OK, m, 1)))"

text \<open>
  \<^verbatim>\<open>int8_t coapSetCode(uint8_t *pBuffer, uint16_t *pBufferLength, CoapCode code)\<close>;
  the enum is an \<^verbatim>\<open>int\<close>, narrowed to \<^verbatim>\<open>int16_t\<close> for the validity test and to a byte
  for the store.
\<close>

definition coapSetCode ::
  "byte list \<Rightarrow> 16 word \<Rightarrow> 32 word \<Rightarrow> (8 word \<times> byte list \<times> 16 word) option" where
  "coapSetCode pBuffer bufferLength code =
     (if \<not> coapCodeIsValid (ucast code) then Some (COAP_UNKNOWN_CODE, pBuffer, bufferLength)
      else case wr pBuffer 1 (ucast code) of
        None \<Rightarrow> None
      | Some m \<Rightarrow> Some (COAP_OK, m, 2))"

text \<open>\<^verbatim>\<open>int8_t coapSetMessageId(uint8_t *pBuffer, uint16_t *pBufferLength, uint16_t messageId)\<close>\<close>

definition coapSetMessageId ::
  "byte list \<Rightarrow> 16 word \<Rightarrow> 16 word \<Rightarrow> (8 word \<times> byte list \<times> 16 word) option" where
  "coapSetMessageId pBuffer bufferLength messageId =
     (case wr pBuffer 2 (ucast (drop_bit 8 messageId)) of
        None \<Rightarrow> None
      | Some m2 \<Rightarrow>
          (case wr m2 3 (ucast (messageId AND 0xFF)) of
             None \<Rightarrow> None
           | Some m3 \<Rightarrow> Some (COAP_OK, m3, word_of_int COAP_HDR_BYTES)))"


text \<open>
  \<^verbatim>\<open>int8_t coapSetToken(uint8_t *pBuffer, uint16_t *pBufferLength, uint8_t *pToken,
  uint8_t tokenLength)\<close>; \<open>pToken\<close> is the caller's token array.
\<close>

definition coapSetToken ::
  "byte list \<Rightarrow> 16 word \<Rightarrow> byte list \<Rightarrow> 8 word \<Rightarrow> (8 word \<times> byte list \<times> 16 word) option" where
  "coapSetToken pBuffer bufferLength pToken tokenLength =
     (if \<not> coapTokenLengthIsValid tokenLength
      then Some (COAP_INVALID_TOKEN_LENGTH, pBuffer, bufferLength)
      else case memcpy_to pBuffer (nat COAP_HDR_BYTES) pToken (unat tokenLength) of
        None \<Rightarrow> None
      | Some m \<Rightarrow> Some (COAP_OK, m, word_of_int (COAP_HDR_BYTES + uint tokenLength)))"

text \<open>
  \<^verbatim>\<open>int8_t coapSetPacketHeader(uint8_t *pBuffer, uint16_t *pBufferLength, uint8_t version,
  uint8_t type, uint8_t tokenLength, CoapCode code, uint16_t messageId)\<close>. The local
  \<^verbatim>\<open>results\<close> is a \<^verbatim>\<open>uint8_t\<close>, and each setter's result is tested with
  \<^verbatim>\<open>results < 0\<close> on that unsigned value.
\<close>

definition coapSetPacketHeader ::
  "byte list \<Rightarrow> 16 word \<Rightarrow> 8 word \<Rightarrow> 8 word \<Rightarrow> 8 word \<Rightarrow> 32 word \<Rightarrow> 16 word
     \<Rightarrow> (8 word \<times> byte list \<times> 16 word) option" where
  "coapSetPacketHeader pBuffer bufferLength version type tokenLength code messageId =
     (case coapSetVersion pBuffer bufferLength version of
        None \<Rightarrow> None
      | Some (results1, m1, l1) \<Rightarrow>
          if uint results1 < 0 then Some (results1, m1, l1)
          else (case coapSetType m1 l1 type of
            None \<Rightarrow> None
          | Some (results2, m2, l2) \<Rightarrow>
              if uint results2 < 0 then Some (results2, m2, l2)
              else (case coapSetTokenLength m2 l2 tokenLength of
                None \<Rightarrow> None
              | Some (results3, m3, l3) \<Rightarrow>
                  if uint results3 < 0 then Some (results3, m3, l3)
                  else (case coapSetCode m3 l3 code of
                    None \<Rightarrow> None
                  | Some (results4, m4, l4) \<Rightarrow>
                      if uint results4 < 0 then Some (results4, m4, l4)
                      else (case coapSetMessageId m4 l4 messageId of
                        None \<Rightarrow> None
                      | Some (results5, m5, l5) \<Rightarrow> Some (COAP_OK, m5, l5))))))"

section \<open>Token accessor\<close>

text \<open>
  \<^verbatim>\<open>int8_t coapGetToken(uint8_t *pBuffer, uint16_t bufferLength, uint8_t *pToken)\<close>.
  The second component is what \<^verbatim>\<open>memcpy\<close> stored at \<^verbatim>\<open>pToken\<close> (nothing when the
  function returns early or the token is empty).
\<close>

definition coapGetToken :: "byte list \<Rightarrow> 16 word \<Rightarrow> (8 word \<times> byte list) option" where
  "coapGetToken pBuffer bufferLength =
     (if uint bufferLength < COAP_HDR_BYTES then Some (COAP_INVALID_PACKET, [])
      else case coapGetTokenLength pBuffer bufferLength of
        None \<Rightarrow> None
      | Some tokenLength \<Rightarrow>
          if sint tokenLength < 0 then Some (tokenLength, [])
          else if COAP_HDR_BYTES + sint tokenLength > uint bufferLength
          then Some (COAP_INSUFFICIENT_BUFFER, [])
          else if sint tokenLength > 0
          then (if nat COAP_HDR_BYTES + nat (sint tokenLength) \<le> length pBuffer
                then Some (COAP_OK, take (nat (sint tokenLength)) (drop (nat COAP_HDR_BYTES) pBuffer))
                else None)
          else Some (COAP_OK, []))"

section \<open>Counting options\<close>

text \<open>
  The \<^verbatim>\<open>switch\<close> in the loop of \<^verbatim>\<open>coapGetOptionCount\<close>. \<^verbatim>\<open>optionLength\<close> and
  \<^verbatim>\<open>additionalByte\<close> are \<^verbatim>\<open>uint8_t\<close>, \<^verbatim>\<open>newLength\<close> is \<^verbatim>\<open>uint16_t\<close>, \<^verbatim>\<open>count\<close> is
  \<^verbatim>\<open>int32_t\<close>. \<open>Inl\<close> is a \<^verbatim>\<open>return\<close> from inside the switch, \<open>Inr\<close> the pointer,
  remaining length and count after it. Case \<^verbatim>\<open>0x0E\<close> has no \<^verbatim>\<open>break\<close> and runs on into
  case \<^verbatim>\<open>0x0D\<close>.
\<close>

definition coapGetOptionCount_case_0D ::
  "byte list \<Rightarrow> nat \<Rightarrow> 16 word \<Rightarrow> 32 word \<Rightarrow> (nat \<times> 16 word \<times> 32 word) option" where
  "coapGetOptionCount_case_0D m pointer newLength count =
     (case rd m (pointer + 1) of
        None \<Rightarrow> None
      | Some additionalByte \<Rightarrow>
          (let optionLength = (word_of_int (uint additionalByte + 13) :: 8 word)
           in Some (pointer + 1 + (unat optionLength + 1),
                    word_of_int (uint newLength - (uint optionLength + 2)),
                    count + 1)))"

definition coapGetOptionCount_switch ::
  "byte list \<Rightarrow> nat \<Rightarrow> 16 word \<Rightarrow> 32 word \<Rightarrow> byte
     \<Rightarrow> (32 word + nat \<times> 16 word \<times> 32 word) option" where
  "coapGetOptionCount_switch m pointer newLength count byte =
     (let optionLength = byte AND 0x0F
      in if optionLength = 0x0F then Some (Inl COAP_INVALID_PACKET)
         else if optionLength = 0x0E then
           (case rd m (pointer + 1) of
              None \<Rightarrow> None
            | Some additionalByte \<Rightarrow>
                (let optionLength1 = (word_of_int (uint additionalByte + 269) :: 8 word)
                 in map_option Inr
                      (coapGetOptionCount_case_0D m
                         (pointer + 1 + (unat optionLength1 + 1))
                         (word_of_int (uint newLength - (uint optionLength1 + 2)))
                         (count + 1))))
         else if optionLength = 0x0D then
           map_option Inr (coapGetOptionCount_case_0D m pointer newLength count)
         else
           Some (Inr (pointer + (unat optionLength + 1),
                      word_of_int (uint newLength - (uint optionLength + 1)),
                      count + 1)))"

text \<open>
  \<^verbatim>\<open>while( byte != COAP_PAYLOAD_MARKER && newLength != 0 )\<close>; the body ends with
  \<^verbatim>\<open>byte = *pointer\<close>, which is read before the condition is tested again.
\<close>

function coapGetOptionCount_loop ::
  "byte list \<Rightarrow> nat \<Rightarrow> 16 word \<Rightarrow> 32 word \<Rightarrow> byte \<Rightarrow> 32 word option" where
  "coapGetOptionCount_loop m pointer newLength count byte =
     (if byte \<noteq> COAP_PAYLOAD_MARKER \<and> newLength \<noteq> 0 then
        (case coapGetOptionCount_switch m pointer newLength count byte of
           None \<Rightarrow> None
         | Some (Inl r) \<Rightarrow> Some r
         | Some (Inr (pointer', newLength', count')) \<Rightarrow>
             (case rd m pointer' of
                None \<Rightarrow> None
              | Some byte' \<Rightarrow> coapGetOptionCount_loop m pointer' newLength' count' byte'))
      else Some count)"
  by pat_completeness auto
termination
  by (relation "measure (\<lambda>(m, pointer, newLength, count, byte). length m - pointer)")
     (auto simp: coapGetOptionCount_switch_def coapGetOptionCount_case_0D_def rd_def Let_def
           split: if_splits option.splits)

text \<open>\<^verbatim>\<open>int32_t coapGetOptionCount(uint8_t *pBuffer, uint16_t bufferLength)\<close>\<close>

definition coapGetOptionCount :: "byte list \<Rightarrow> 16 word \<Rightarrow> 32 word option" where
  "coapGetOptionCount pBuffer bufferLength =
     (if uint bufferLength < COAP_HDR_BYTES then Some COAP_INVALID_PACKET
      else case coapGetTokenLength pBuffer bufferLength of
        None \<Rightarrow> None
      | Some tokenLength \<Rightarrow>
          if sint tokenLength < 0 then Some (scast tokenLength)
          else if COAP_HDR_BYTES + sint tokenLength = uint bufferLength then Some 0
          else
            (let pointer = nat (COAP_HDR_BYTES + sint tokenLength);
                 newLength = (word_of_int (uint bufferLength - (COAP_HDR_BYTES + sint tokenLength))
                                :: 16 word)
             in case rd pBuffer pointer of
                  None \<Rightarrow> None
                | Some byte \<Rightarrow> coapGetOptionCount_loop pBuffer pointer newLength 0 byte))"

section \<open>Decoding one option\<close>

text \<open>
  The two \<^verbatim>\<open>if\<close> chains of \<^verbatim>\<open>coapDecodeOption\<close>, for the delta nibble (a
  \<^verbatim>\<open>uint8_t\<close>) and for the length nibble (a \<^verbatim>\<open>uint16_t\<close>). Each yields the decoded
  value and the advanced pointer, or \<open>Some None\<close> where the source returns
  \<^verbatim>\<open>COAP_INVALID_PACKET\<close>. The extension bytes are read through the pointer with no
  test against \<^verbatim>\<open>bufferLength\<close>.
\<close>

definition coapDecodeOption_delta ::
  "byte list \<Rightarrow> nat \<Rightarrow> 8 word \<Rightarrow> (8 word \<times> nat) option option" where
  "coapDecodeOption_delta m pPointer optionDelta =
     (if optionDelta = 0x0F then Some None
      else if optionDelta = 0x0E then
        (case rd m pPointer of
           None \<Rightarrow> None
         | Some b0 \<Rightarrow>
             (case rd m (pPointer + 1) of
                None \<Rightarrow> None
              | Some b1 \<Rightarrow>
                  Some (Some (word_of_int (uint b0 * 256 + uint b1 + 269), pPointer + 2))))
      else if optionDelta = 0x0D then
        (case rd m pPointer of
           None \<Rightarrow> None
         | Some b0 \<Rightarrow> Some (Some (word_of_int (uint b0 + 13), pPointer + 1)))
      else if optionDelta < 0x0D then Some (Some (optionDelta, pPointer))
      else Some None)"

definition coapDecodeOption_length ::
  "byte list \<Rightarrow> nat \<Rightarrow> 16 word \<Rightarrow> (16 word \<times> nat) option option" where
  "coapDecodeOption_length m pPointer optionLength =
     (if optionLength = 0x0F then Some None
      else if optionLength = 0x0E then
        (case rd m pPointer of
           None \<Rightarrow> None
         | Some b0 \<Rightarrow>
             (case rd m (pPointer + 1) of
                None \<Rightarrow> None
              | Some b1 \<Rightarrow>
                  Some (Some (word_of_int (uint b0 * 256 + uint b1 + 269), pPointer + 2))))
      else if optionLength = 0x0D then
        (case rd m pPointer of
           None \<Rightarrow> None
         | Some b0 \<Rightarrow> Some (Some (word_of_int (uint b0 + 13), pPointer + 1)))
      else if optionLength < 0x0D then Some (Some (optionLength, pPointer))
      else Some None)"

text \<open>
  \<^verbatim>\<open>int32_t coapDecodeOption(uint8_t *pPointer, uint16_t bufferLength,
  uint8_t *pOptionNumber, uint8_t **pOptionData, uint8_t **pNewPointer)\<close>.
  \<open>optionNumber\<close> is the value of \<^verbatim>\<open>*pOptionNumber\<close> on entry (every caller passes
  non-null out-parameters). The result is the returned \<^verbatim>\<open>int32_t\<close> and, when the
  function got as far as storing them, the new \<^verbatim>\<open>*pOptionNumber\<close>, \<^verbatim>\<open>*pOptionData\<close>
  and \<^verbatim>\<open>*pNewPointer\<close>; on an error return the out-parameters are left as they were.
\<close>

definition coapDecodeOption ::
  "byte list \<Rightarrow> nat \<Rightarrow> 16 word \<Rightarrow> 8 word \<Rightarrow> (32 word \<times> (8 word \<times> nat \<times> nat) option) option" where
  "coapDecodeOption m pPointer bufferLength optionNumber =
     (if bufferLength = 0 then Some (COAP_END_OF_PACKET, None)
      else case rd m pPointer of
        None \<Rightarrow> None
      | Some b \<Rightarrow>
          if b = COAP_PAYLOAD_MARKER then Some (COAP_FOUND_PAYLOAD_MARKER, None)
          else
            (case coapDecodeOption_delta m (pPointer + 1) (drop_bit 4 b) of
               None \<Rightarrow> None
             | Some None \<Rightarrow> Some (COAP_INVALID_PACKET, None)
             | Some (Some (optionDelta, p1)) \<Rightarrow>
                 (case coapDecodeOption_length m p1 (ucast (b AND 0x0F)) of
                    None \<Rightarrow> None
                  | Some None \<Rightarrow> Some (COAP_INVALID_PACKET, None)
                  | Some (Some (optionLength, p2)) \<Rightarrow>
                      Some (ucast optionLength,
                            Some (optionNumber + optionDelta, p2, p2 + unat optionLength)))))"

section \<open>Fetching an option by index\<close>

text \<open>
  The \<^verbatim>\<open>for\<close> loop of \<^verbatim>\<open>coapGetOption\<close>, by the number of iterations left. The state
  is \<^verbatim>\<open>pointer\<close>, \<^verbatim>\<open>optionLength\<close> (a \<^verbatim>\<open>uint8_t\<close>), \<^verbatim>\<open>optionNumber\<close>,
  \<^verbatim>\<open>optionData\<close> and \<^verbatim>\<open>newPointer\<close>. The locals \<^verbatim>\<open>optionData\<close> and \<^verbatim>\<open>newPointer\<close>
  start unassigned (\<open>None\<close>), and \<^verbatim>\<open>pointer = newPointer\<close> copies that state;
  dereferencing an unassigned pointer is undefined. The decoder is always given the same
  \<^verbatim>\<open>newLength\<close>, and its \<^verbatim>\<open>int32_t\<close> result is narrowed to the \<^verbatim>\<open>uint8_t\<close> before the
  test \<^verbatim>\<open>optionLength < 0\<close>.
\<close>

fun coapGetOption_loop ::
  "byte list \<Rightarrow> 16 word \<Rightarrow> nat
     \<Rightarrow> nat option \<times> 8 word \<times> 8 word \<times> nat option \<times> nat option
     \<Rightarrow> (32 word + nat option \<times> 8 word \<times> 8 word \<times> nat option \<times> nat option) option" where
  "coapGetOption_loop m newLength 0 s = Some (Inr s)"
| "coapGetOption_loop m newLength (Suc n) (pointer, optionLength, optionNumber, optionData, newPointer) =
     (case pointer of
        None \<Rightarrow> None
      | Some p \<Rightarrow>
          (case rd m p of
             None \<Rightarrow> None
           | Some b \<Rightarrow>
               if b = COAP_PAYLOAD_MARKER then Some (Inl COAP_FOUND_PAYLOAD_MARKER)
               else
                 (case coapDecodeOption m p newLength optionNumber of
                    None \<Rightarrow> None
                  | Some (r, out) \<Rightarrow>
                      (let optionLength' = (ucast r :: 8 word)
                       in if uint optionLength' < 0 then Some (Inl (ucast optionLength'))
                          else
                            (case out of
                               None \<Rightarrow>
                                 coapGetOption_loop m newLength n
                                   (newPointer, optionLength', optionNumber, optionData, newPointer)
                             | Some (optionNumber', optionData', newPointer') \<Rightarrow>
                                 coapGetOption_loop m newLength n
                                   (Some newPointer', optionLength', optionNumber',
                                    Some optionData', Some newPointer'))))))"

text \<open>
  \<^verbatim>\<open>int32_t coapGetOption(uint8_t *pBuffer, uint16_t bufferLength, uint8_t optionIndex,
  uint8_t *pOptionNumber, uint8_t **pOptionData, uint8_t *pNewPointer)\<close>. The result is
  the returned \<^verbatim>\<open>int32_t\<close>, the value stored to \<^verbatim>\<open>*pOptionNumber\<close> if one is stored
  (the store is skipped when the number is 0), and the pointer stored to
  \<^verbatim>\<open>*pOptionData\<close>. When the loop never assigned \<^verbatim>\<open>optionData\<close>, the test
  \<^verbatim>\<open>optionData != 0\<close> only decides whether an indeterminate pointer is copied out, so the
  caller has no defined pointer either way (\<open>None\<close>). \<^verbatim>\<open>pNewPointer\<close> is never used.
\<close>

definition coapGetOption ::
  "byte list \<Rightarrow> 16 word \<Rightarrow> 8 word \<Rightarrow> (32 word \<times> 8 word option \<times> nat option) option" where
  "coapGetOption pBuffer bufferLength optionIndex =
     (if uint bufferLength < COAP_HDR_BYTES then Some (COAP_INVALID_PACKET, None, None)
      else case coapGetTokenLength pBuffer bufferLength of
        None \<Rightarrow> None
      | Some tokenLength \<Rightarrow>
          if sint tokenLength < 0 then Some (scast tokenLength, None, None)
          else if uint bufferLength - (COAP_HDR_BYTES + sint tokenLength) = 0
          then Some (COAP_END_OF_PACKET, None, None)
          else
            (let pointer = nat (COAP_HDR_BYTES + sint tokenLength);
                 newLength = (word_of_int (uint bufferLength - (COAP_HDR_BYTES + sint tokenLength))
                                :: 16 word)
             in case coapGetOption_loop pBuffer newLength (unat optionIndex)
                       (Some pointer, 0, 0, None, None) of
                  None \<Rightarrow> None
                | Some (Inl r) \<Rightarrow> Some (r, None, None)
                | Some (Inr (pointer', optionLength, optionNumber, optionData, newPointer)) \<Rightarrow>
                    Some (ucast optionLength,
                          (if optionNumber \<noteq> 0 then Some optionNumber else None),
                          optionData)))"

section \<open>Payload accessor\<close>

text \<open>
  The \<^verbatim>\<open>switch\<close> in the loop of \<^verbatim>\<open>coapGetPayload\<close>. Here \<^verbatim>\<open>optionLength\<close> is an
  \<^verbatim>\<open>int32_t\<close> and \<^verbatim>\<open>newLength\<close> an \<^verbatim>\<open>int16_t\<close>. As in the counting loop, case
  \<^verbatim>\<open>0x0E\<close> has no \<^verbatim>\<open>break\<close>.
\<close>

definition coapGetPayload_case_0D ::
  "byte list \<Rightarrow> nat \<Rightarrow> 16 word \<Rightarrow> (nat \<times> 16 word) option" where
  "coapGetPayload_case_0D m pointer newLength =
     (case rd m (pointer + 1) of
        None \<Rightarrow> None
      | Some additionalByte \<Rightarrow>
          (let optionLength = uint additionalByte + 13
           in Some (pointer + 1 + nat (optionLength + 1),
                    word_of_int (sint newLength - (optionLength + 2)))))"

definition coapGetPayload_switch ::
  "byte list \<Rightarrow> nat \<Rightarrow> 16 word \<Rightarrow> byte \<Rightarrow> (16 word + nat \<times> 16 word) option" where
  "coapGetPayload_switch m pointer newLength byte =
     (let optionLength = uint (byte AND 0x0F)
      in if optionLength = 0x0F then Some (Inl COAP_INVALID_PACKET)
         else if optionLength = 0x0E then
           (case rd m (pointer + 1) of
              None \<Rightarrow> None
            | Some additionalByte \<Rightarrow>
                (let optionLength1 = uint additionalByte + 269
                 in map_option Inr
                      (coapGetPayload_case_0D m
                         (pointer + 1 + nat (optionLength1 + 1))
                         (word_of_int (sint newLength - (optionLength1 + 2))))))
         else if optionLength = 0x0D then
           map_option Inr (coapGetPayload_case_0D m pointer newLength)
         else
           Some (Inr (pointer + nat (optionLength + 1),
                      word_of_int (sint newLength - (optionLength + 1)))))"

text \<open>
  \<^verbatim>\<open>while( byte != COAP_PAYLOAD_MARKER || newLength == 0)\<close>, with the
  left-to-right evaluation of \<^verbatim>\<open>||\<close> written as a conditional. The loop is left only
  through the \<^verbatim>\<open>return\<close> of case \<^verbatim>\<open>0x0F\<close> or on a marker byte with a non-zero
  \<^verbatim>\<open>newLength\<close>; the end of the packet does not stop it. (\<^verbatim>\<open>optionCount--\<close> in the
  body is not read again and is left out.) Each round moves the pointer forward and
  reads through it, so the walk ends at the latest when it leaves the array.
\<close>

function coapGetPayload_loop ::
  "byte list \<Rightarrow> nat \<Rightarrow> 16 word \<Rightarrow> byte \<Rightarrow> (16 word + nat \<times> 16 word \<times> byte) option" where
  "coapGetPayload_loop m pointer newLength byte =
     (if (if byte \<noteq> COAP_PAYLOAD_MARKER then True else newLength = 0) then
        (case coapGetPayload_switch m pointer newLength byte of
           None \<Rightarrow> None
         | Some (Inl r) \<Rightarrow> Some (Inl r)
         | Some (Inr (pointer', newLength')) \<Rightarrow>
             (case rd m pointer' of
                None \<Rightarrow> None
              | Some byte' \<Rightarrow> coapGetPayload_loop m pointer' newLength' byte'))
      else Some (Inr (pointer, newLength, byte)))"
  by pat_completeness auto
termination
  by (relation "measure (\<lambda>(m, pointer, newLength, byte). length m - pointer)")
     (auto simp: coapGetPayload_switch_def coapGetPayload_case_0D_def rd_def Let_def
                 nat_add_distrib
           split: if_splits option.splits)

text \<open>
  \<^verbatim>\<open>int16_t coapGetPayload(uint8_t *pBuffer, uint16_t bufferLength, uint8_t **pPayloadData)\<close>.
  The result is the returned \<^verbatim>\<open>int16_t\<close> and the pointer stored to \<^verbatim>\<open>*pPayloadData\<close>,
  if one is stored.
\<close>

definition coapGetPayload :: "byte list \<Rightarrow> 16 word \<Rightarrow> (16 word \<times> nat option) option" where
  "coapGetPayload pBuffer bufferLength =
     (if uint bufferLength < COAP_HDR_BYTES then Some (COAP_INVALID_PACKET, None)
      else case coapGetOptionCount pBuffer bufferLength of
        None \<Rightarrow> None
      | Some optionCount \<Rightarrow>
          (case coapGetTokenLength pBuffer bufferLength of
             None \<Rightarrow> None
           | Some tokenLength \<Rightarrow>
               if sint optionCount < 0 then Some (ucast optionCount, None)
               else if sint tokenLength < 0 then Some (scast tokenLength, None)
               else if COAP_HDR_BYTES + sint tokenLength > uint bufferLength
               then Some (COAP_INSUFFICIENT_BUFFER, None)
               else if COAP_HDR_BYTES + sint tokenLength = uint bufferLength
               then Some (0, None)
               else
                 (let pointer = nat (COAP_HDR_BYTES + sint tokenLength);
                      newLength = (word_of_int (sint bufferLength - (COAP_HDR_BYTES + sint tokenLength))
                                     :: 16 word)
                  in case rd pBuffer pointer of
                       None \<Rightarrow> None
                     | Some byte \<Rightarrow>
                         if optionCount = 0 \<and> byte = COAP_PAYLOAD_MARKER
                         then Some (word_of_int (sint newLength - 1), Some (pointer + 1))
                         else if sint optionCount > 0 \<and> byte = COAP_PAYLOAD_MARKER
                         then Some (COAP_INVALID_PACKET, None)
                         else
                           (case coapGetPayload_loop pBuffer pointer newLength byte of
                              None \<Rightarrow> None
                            | Some (Inl r) \<Rightarrow> Some (r, None)
                            | Some (Inr (pointer', newLength', byte')) \<Rightarrow>
                                if byte' = COAP_PAYLOAD_MARKER \<and> newLength' \<noteq> 0
                                then Some (word_of_int (sint newLength' - 1), Some (pointer' + 1))
                                else Some (COAP_INVALID_PACKET, None)))))"

section \<open>Appending an option\<close>

text \<open>
  \<^verbatim>\<open>int8_t coapBuildOptionHeaderLength(uint8_t option, uint8_t optionLength,
  uint8_t pPreviousOption)\<close>; \<^verbatim>\<open>length\<close>, \<^verbatim>\<open>delta\<close> and \<^verbatim>\<open>difference\<close> are
  \<^verbatim>\<open>int8_t\<close>.
\<close>

definition coapBuildOptionHeaderLength :: "8 word \<Rightarrow> 8 word \<Rightarrow> 8 word \<Rightarrow> 8 word" where
  "coapBuildOptionHeaderLength option optionLength pPreviousOption =
     (if \<not> coapOptionIsValid option then COAP_INVALID_OPTION
      else
        (let difference = (word_of_int (uint option - uint pPreviousOption) :: 8 word)
         in if sint difference < 0 then COAP_OPTIONS_OUT_OF_ORDER
            else
              (let delta = difference;
                   length1 = (if sint delta < 13 then (1 :: 8 word)
                              else if sint delta \<ge> 13 \<and> sint delta < 269 then 1 + 1
                              else if sint delta \<ge> 269 then 1 + 2
                              else 1)
               in if uint optionLength < 13 then length1
                  else if uint optionLength \<ge> 13 \<and> uint optionLength < 269 then length1 + 1
                  else if uint optionLength \<ge> 269 then length1 + 2
                  else length1)))"

text \<open>
  \<^verbatim>\<open>int8_t coapBuildOptionHeader(uint8_t *pBuffer, uint16_t *pBufferLength, uint8_t option,
  uint8_t previousOption, uint8_t optionLength, uint8_t optionHeaderLength,
  uint8_t **pNewPointer)\<close>. \<^verbatim>\<open>delta\<close> and \<^verbatim>\<open>length\<close> are \<^verbatim>\<open>uint8_t\<close>. The result is the
  returned \<^verbatim>\<open>int8_t\<close> (on success \<^verbatim>\<open>newPointer - pBuffer\<close> narrowed to 8 bits), the
  array and \<^verbatim>\<open>*pNewPointer\<close>. The test
  \<^verbatim>\<open>!coapOptionIsValid(option) || !coapOptionIsValid(previousOption)\<close> is written as two
  tests in a row. The three stages follow the source: the delta, which
  positions \<^verbatim>\<open>newPointer\<close> and writes the delta extension; the length extension, written
  at \<^verbatim>\<open>newPointer\<close>; and the header byte, written at the entry value of the pointer.
\<close>

definition coapBuildOptionHeader_delta ::
  "byte list \<Rightarrow> 8 word \<Rightarrow> 8 word \<Rightarrow> nat \<Rightarrow> (8 word \<times> byte list \<times> nat) option" where
  "coapBuildOptionHeader_delta m option delta newPointer =
     (let newPointer1 = (if uint delta < 13 then newPointer + 1 else newPointer)
      in if uint delta \<ge> 13 \<and> uint delta < 269 then
           (case wr m (newPointer1 + 1) (word_of_int (uint option - 13)) of
              None \<Rightarrow> None
            | Some m1 \<Rightarrow> Some (0x0D, m1, newPointer1 + 1))
         else if uint delta \<ge> 269 then
           (case wr m (newPointer1 + 1) (word_of_int (drop_bit 8 (uint (0x0E :: 8 word) - 269))) of
              None \<Rightarrow> None
            | Some m1 \<Rightarrow>
                (case wr m1 (newPointer1 + 2) (word_of_int (uint (0x0E :: 8 word) - 269)) of
                   None \<Rightarrow> None
                 | Some m2 \<Rightarrow> Some (0x0E, m2, newPointer1 + 2)))
         else Some (delta, m, newPointer1))"

definition coapBuildOptionHeader_length ::
  "byte list \<Rightarrow> 8 word \<Rightarrow> nat \<Rightarrow> (8 word \<times> byte list \<times> nat) option" where
  "coapBuildOptionHeader_length m optionLength newPointer =
     (if uint optionLength \<ge> 13 \<and> uint optionLength < 269 then
        (case wr m newPointer (word_of_int (uint optionLength - 13)) of
           None \<Rightarrow> None
         | Some m1 \<Rightarrow> Some (0x0D, m1, newPointer + 1))
      else if uint optionLength \<ge> 269 then
        (case wr m newPointer (word_of_int (drop_bit 8 (uint optionLength - 269))) of
           None \<Rightarrow> None
         | Some m1 \<Rightarrow>
             (case wr m1 (newPointer + 1) (word_of_int (uint optionLength - 269)) of
                None \<Rightarrow> None
              | Some m2 \<Rightarrow> Some (0x0E, m2, newPointer + 2)))
      else Some (optionLength, m, newPointer))"

definition coapBuildOptionHeader ::
  "byte list \<Rightarrow> 16 word \<Rightarrow> 8 word \<Rightarrow> 8 word \<Rightarrow> 8 word \<Rightarrow> 8 word \<Rightarrow> nat
     \<Rightarrow> (8 word \<times> byte list \<times> nat) option" where
  "coapBuildOptionHeader pBuffer bufferLength option previousOption optionLength
       optionHeaderLength pNewPointer =
     (if uint bufferLength < COAP_HDR_BYTES then Some (COAP_INVALID_PACKET, pBuffer, pNewPointer)
      else if \<not> coapOptionIsValid option then Some (COAP_INVALID_OPTION, pBuffer, pNewPointer)
      else if \<not> coapOptionIsValid previousOption
      then Some (COAP_INVALID_OPTION, pBuffer, pNewPointer)
      else case coapGetTokenLength pBuffer bufferLength of
        None \<Rightarrow> None
      | Some tokenLength \<Rightarrow>
          if sint tokenLength < 0 then Some (tokenLength, pBuffer, pNewPointer)
          else if COAP_HDR_BYTES + sint tokenLength + uint optionLength + uint optionHeaderLength
                    > MAX_BUFFER_SIZE
          then Some (COAP_INSUFFICIENT_BUFFER, pBuffer, pNewPointer)
          else
            (let delta = (word_of_int (uint option - uint previousOption) :: 8 word)
             in if uint delta < 0 then Some (COAP_OPTIONS_OUT_OF_ORDER, pBuffer, pNewPointer)
                else
                  (case coapBuildOptionHeader_delta pBuffer option delta pNewPointer of
                     None \<Rightarrow> None
                   | Some (delta', m1, newPointer1) \<Rightarrow>
                       (case coapBuildOptionHeader_length m1 optionLength newPointer1 of
                          None \<Rightarrow> None
                        | Some (length', m2, newPointer2) \<Rightarrow>
                            (case wr m2 pNewPointer (push_bit 4 (delta' AND 0x0F) OR length') of
                               None \<Rightarrow> None
                             | Some m3 \<Rightarrow>
                                 Some (word_of_int (int newPointer2), m3, newPointer2))))))"

text \<open>
  \<^verbatim>\<open>int8_t coapAddOption(uint8_t *pBuffer, uint16_t *pBufferLength, uint8_t option,
  uint8_t optionLength, uint8_t *pOptionData, uint8_t **pNewPointer)\<close>.
  \<open>pOptionData\<close> is the caller's value array and \<open>pNewPointer\<close> the value of
  \<^verbatim>\<open>*pNewPointer\<close> on entry. The result is the returned \<^verbatim>\<open>int8_t\<close>, the array,
  \<^verbatim>\<open>*pBufferLength\<close> and \<^verbatim>\<open>*pNewPointer\<close>. \<^verbatim>\<open>tokenLength\<close> is a \<^verbatim>\<open>uint8_t\<close>,
  \<^verbatim>\<open>optionCount\<close> and \<^verbatim>\<open>previousOption\<close> are \<^verbatim>\<open>int8_t\<close>; \<^verbatim>\<open>previousOption\<close> is
  assigned only by \<^verbatim>\<open>coapGetOption\<close> (whose own result is ignored) or by the
  \<^verbatim>\<open>else\<close> branch. The result of \<^verbatim>\<open>coapBuildOptionHeader\<close> is stored in the
  \<^verbatim>\<open>uint16_t\<close> length counter before it is tested with \<^verbatim>\<open>< 0\<close>.
\<close>

definition coapAddOption ::
  "byte list \<Rightarrow> 16 word \<Rightarrow> 8 word \<Rightarrow> 8 word \<Rightarrow> byte list \<Rightarrow> nat
     \<Rightarrow> (8 word \<times> byte list \<times> 16 word \<times> nat) option" where
  "coapAddOption pBuffer bufferLength option optionLength pOptionData pNewPointer =
     (if uint bufferLength < COAP_HDR_BYTES
      then Some (COAP_INVALID_PACKET, pBuffer, bufferLength, pNewPointer)
      else case coapGetTokenLength pBuffer bufferLength of
        None \<Rightarrow> None
      | Some tokenLength \<Rightarrow>
          (case coapGetOptionCount pBuffer bufferLength of
             None \<Rightarrow> None
           | Some optionCount32 \<Rightarrow>
               (let optionCount = (ucast optionCount32 :: 8 word)
                in if uint tokenLength < 0
                   then Some (tokenLength, pBuffer, bufferLength, pNewPointer)
                   else if sint optionCount < 0
                   then Some (optionCount, pBuffer, bufferLength, pNewPointer)
                   else if \<not> coapOptionIsValid option
                   then Some (COAP_INVALID_OPTION, pBuffer, bufferLength, pNewPointer)
                   else
                     (case (if sint optionCount > 0
                            then map_option (\<lambda>(r, optionNumber, optionData). (optionNumber, pNewPointer))
                                   (coapGetOption pBuffer bufferLength optionCount)
                            else Some (Some 0, pNewPointer + nat (COAP_HDR_BYTES + uint tokenLength))) of
                        None \<Rightarrow> None
                      | Some (None, newPointer) \<Rightarrow> None
                      | Some (Some previousOption, newPointer) \<Rightarrow>
                          (let optionHeaderLength =
                                 coapBuildOptionHeaderLength option optionLength previousOption
                           in if sint optionHeaderLength < 0
                              then Some (optionHeaderLength, pBuffer, bufferLength, pNewPointer)
                              else if COAP_HDR_BYTES + uint tokenLength + uint optionLength
                                        + sint optionHeaderLength > MAX_BUFFER_SIZE
                              then Some (COAP_INSUFFICIENT_BUFFER, pBuffer, bufferLength, pNewPointer)
                              else if int newPointer \<noteq> uint bufferLength
                              then Some (COAP_INVALID_PACKET, pBuffer, bufferLength, pNewPointer)
                              else
                                (case coapBuildOptionHeader pBuffer bufferLength option previousOption
                                        optionLength optionHeaderLength newPointer of
                                   None \<Rightarrow> None
                                 | Some (r, m1, newPointer1) \<Rightarrow>
                                     (let bufferLength1 = (scast r :: 16 word)
                                      in if uint bufferLength1 < 0
                                         then Some (ucast bufferLength1, m1, bufferLength1, pNewPointer)
                                         else
                                           (case memcpy_to m1 newPointer1 pOptionData
                                                   (unat optionLength) of
                                              None \<Rightarrow> None
                                            | Some m2 \<Rightarrow>
                                                Some (COAP_OK, m2,
                                                      word_of_int (uint bufferLength1 + uint optionLength),
                                                      newPointer1 + unat optionLength)))))))))"

section \<open>Payload mutator\<close>

text \<open>
  \<^verbatim>\<open>int32_t coapSetPayload(uint8_t *pBuffer, uint16_t *pBufferLength,
  uint16_t payloadLength, uint8_t *pPayloadData, uint8_t *pPointer, uint8_t **pNewPointer)\<close>.
  \<open>pPayloadData\<close> is the caller's payload array, \<open>pPointer\<close> the place to write at and
  \<open>pNewPointer\<close> the value of \<^verbatim>\<open>*pNewPointer\<close> on entry. The result is the returned
  \<^verbatim>\<open>int32_t\<close>, the array, \<^verbatim>\<open>*pBufferLength\<close> and \<^verbatim>\<open>*pNewPointer\<close>. \<^verbatim>\<open>tokenLength\<close>
  is a \<^verbatim>\<open>uint8_t\<close>. The guard before the writes is \<^verbatim>\<open>*pPayloadData != 0\<close>.
\<close>

definition coapSetPayload ::
  "byte list \<Rightarrow> 16 word \<Rightarrow> 16 word \<Rightarrow> byte list \<Rightarrow> nat \<Rightarrow> nat
     \<Rightarrow> (32 word \<times> byte list \<times> 16 word \<times> nat) option" where
  "coapSetPayload pBuffer bufferLength payloadLength pPayloadData pPointer pNewPointer =
     (if uint bufferLength < COAP_HDR_BYTES
      then Some (COAP_INVALID_PACKET, pBuffer, bufferLength, pNewPointer)
      else case coapGetTokenLength pBuffer bufferLength of
        None \<Rightarrow> None
      | Some tokenLength \<Rightarrow>
          if uint tokenLength < 0
          then Some (ucast tokenLength, pBuffer, bufferLength, pNewPointer)
          else if uint payloadLength \<le> 0
          then Some (COAP_INVALID_PAYLOAD, pBuffer, bufferLength, pNewPointer)
          else if uint payloadLength \<ge> MAX_BUFFER_SIZE
                    \<or> COAP_HDR_BYTES + uint tokenLength + uint payloadLength > MAX_BUFFER_SIZE
          then Some (COAP_INSUFFICIENT_BUFFER, pBuffer, bufferLength, pNewPointer)
          else
            (case rd pPayloadData 0 of
               None \<Rightarrow> None
             | Some d0 \<Rightarrow>
                 if d0 \<noteq> 0 then
                   (case wr pBuffer pPointer COAP_PAYLOAD_MARKER of
                      None \<Rightarrow> None
                    | Some m1 \<Rightarrow>
                        (case memcpy_to m1 (pPointer + 1) pPayloadData (unat payloadLength) of
                           None \<Rightarrow> None
                         | Some m2 \<Rightarrow>
                             Some (COAP_OK, m2,
                                   word_of_int (uint bufferLength + (uint payloadLength + 1)),
                                   pPointer + 1 + unat payloadLength)))
                 else Some (COAP_OK, pBuffer, bufferLength, pNewPointer)))"

section \<open>Packet validation\<close>

text \<open>
  The four header tests of \<^verbatim>\<open>coapValidatePacket\<close>, which both of its branches
  repeat: \<open>Some (Some r)\<close> is a \<^verbatim>\<open>return r\<close>, \<open>Some None\<close> means that all four passed.
  Each test calls its accessor twice, once for the test and once for the returned
  value. The fourth applies \<^verbatim>\<open>coapCodeIsValid\<close> to \<^verbatim>\<open>coapGetType\<close>.
\<close>

definition coapValidatePacket_header :: "byte list \<Rightarrow> 16 word \<Rightarrow> 8 word option option" where
  "coapValidatePacket_header pBuffer bufferLength =
     (case coapGetVersion pBuffer bufferLength of
        None \<Rightarrow> None
      | Some version \<Rightarrow>
          if \<not> coapVersionIsValid version then Some (Some version)
          else (case coapGetType pBuffer bufferLength of
            None \<Rightarrow> None
          | Some type \<Rightarrow>
              if \<not> coapTypeIsValid type then Some (Some type)
              else (case coapGetTokenLength pBuffer bufferLength of
                None \<Rightarrow> None
              | Some tokenLength \<Rightarrow>
                  if \<not> coapTokenLengthIsValid tokenLength then Some (Some tokenLength)
                  else if \<not> coapCodeIsValid (scast type) then Some (Some type)
                  else Some None)))"

text \<open>
  The \<^verbatim>\<open>for\<close> loop over the options: \<open>i\<close> is the loop variable (an \<^verbatim>\<open>int\<close>, narrowed
  to the \<^verbatim>\<open>uint8_t\<close> index parameter) and the other number counts the iterations left.
\<close>

fun coapValidatePacket_loop :: "byte list \<Rightarrow> 16 word \<Rightarrow> nat \<Rightarrow> nat \<Rightarrow> 8 word option" where
  "coapValidatePacket_loop pBuffer bufferLength i 0 = Some COAP_OK"
| "coapValidatePacket_loop pBuffer bufferLength i (Suc k) =
     (case coapGetOption pBuffer bufferLength (word_of_nat i) of
        None \<Rightarrow> None
      | Some (r, optionNumber, optionData) \<Rightarrow>
          if sint r < 0 then Some (ucast r)
          else coapValidatePacket_loop pBuffer bufferLength (i + 1) k)"

text \<open>
  \<^verbatim>\<open>int8_t coapValidatePacket(uint8_t *pBuffer, uint16_t bufferLength)\<close>. When the
  option count is negative the source executes \<^verbatim>\<open>return false\<close>, which is 0.
\<close>

definition coapValidatePacket :: "byte list \<Rightarrow> 16 word \<Rightarrow> 8 word option" where
  "coapValidatePacket pBuffer bufferLength =
     (if uint bufferLength = COAP_HDR_BYTES then
        (case coapValidatePacket_header pBuffer bufferLength of
           None \<Rightarrow> None
         | Some (Some r) \<Rightarrow> Some r
         | Some None \<Rightarrow> Some COAP_OK)
      else
        (case coapValidatePacket_header pBuffer bufferLength of
           None \<Rightarrow> None
         | Some (Some r) \<Rightarrow> Some r
         | Some None \<Rightarrow>
             (case coapGetOptionCount pBuffer bufferLength of
                None \<Rightarrow> None
              | Some optionCount \<Rightarrow>
                  if sint optionCount < 0 then Some 0
                  else coapValidatePacket_loop pBuffer bufferLength 0 (nat (sint optionCount)))))"

section \<open>A caller\<close>

text \<open>
  Not part of \<^verbatim>\<open>coap.c\<close>: a caller that appends options with empty values one after
  the other, handing each call the length counter and write pointer the call before
  left, and stopping at the first result other than \<^verbatim>\<open>COAP_OK\<close>.
\<close>

fun add_empty_options ::
  "byte list \<Rightarrow> 16 word \<Rightarrow> nat \<Rightarrow> 8 word list \<Rightarrow> (8 word \<times> byte list \<times> 16 word \<times> nat) option" where
  "add_empty_options m len np [] = Some (COAP_OK, m, len, np)"
| "add_empty_options m len np (option # options) =
     (case coapAddOption m len option 0 [] np of
        None \<Rightarrow> None
      | Some (r, m', len', np') \<Rightarrow>
          if r = COAP_OK then add_empty_options m' len' np' options
          else Some (r, m', len', np'))"

section \<open>Auxiliary facts\<close>

lemma uint_be16:
  fixes a b :: "8 word"
  shows "uint (push_bit 8 (ucast a :: 16 word) OR ucast b) = 256 * uint a + uint b"
proof -
  have a: "uint a < 256" "0 \<le> uint a" and b: "uint b < 256" "0 \<le> uint b"
    using uint_bounded [of a] uint_bounded [of b] by simp_all
  have "push_bit 8 (ucast a :: 16 word) OR ucast b = push_bit 8 (ucast a) + ucast b"
    using word_cat_eq_push_bit_or [of a b, where 'c = 16] word_cat_eq [of a b, where 'c = 16]
    by simp
  then have "uint (push_bit 8 (ucast a :: 16 word) OR ucast b)
               = (256 * uint a + uint b) mod 65536"
    by (simp add: uint_word_ariths push_bit_eq_mult unsigned_ucast_eq take_bit_eq_mod mod_simps
                  mult.commute)
  with a b show ?thesis by simp
qed

lemma sint16_of_uint:
  fixes r :: "16 word"
  shows "sint r = (if uint r < 0x8000 then uint r else uint r - 65536)"
proof -
  have r: "0 \<le> uint r" "uint r < 65536"
    using uint_bounded [of r] by simp_all
  have s: "sint r = (uint r + 32768) mod 65536 - 32768"
    by (simp add: sint_uint signed_take_bit_eq_take_bit_shift take_bit_eq_mod)
  show ?thesis
  proof (cases "uint r < 0x8000")
    case True
    with r s show ?thesis by simp
  next
    case False
    with r have "(uint r + 32768) mod 65536 = uint r + 32768 - 65536"
      by (simp add: mod_pos_geq)
    with False s show ?thesis by simp
  qed
qed

lemma sint8_of_small:
  fixes r :: "8 word"
  assumes "uint r < 128"
  shows "sint r = uint r"
proof -
  have "0 \<le> uint r" by simp
  have "sint r = (uint r + 128) mod 256 - 128"
    by (simp add: sint_uint signed_take_bit_eq_take_bit_shift take_bit_eq_mod)
  with assms \<open>0 \<le> uint r\<close> show ?thesis by simp
qed



lemma rd_in_range: "i < length m \<Longrightarrow> rd m i = Some (m ! i)"
  by (simp add: rd_def)

lemma wr_in_range: "i < length m \<Longrightarrow> wr m i v = Some (m[i := v])"
  by (simp add: wr_def)

section \<open>Message-id accessor\<close>

text \<open>
  Claim C9. For every buffer of length at least 4, \<^verbatim>\<open>coapGetMessageId\<close> returns the
  big-endian 16-bit value of bytes 2 and 3 read as a signed \<^verbatim>\<open>int16_t\<close>: the bit
  pattern \<open>r\<close> has the unsigned value \<open>256 * b2 + b3\<close>, and the integer handed back is
  that value when it is below \<open>0x8000\<close> and that value minus \<open>65536\<close> otherwise. So a
  message-id is returned as a negative number exactly when it is \<open>0x8000\<close> or more, in
  the range of the error codes; the witness shows the message-id \<open>0xFFFF\<close> coming back
  as \<open>-1\<close>, which is \<^verbatim>\<open>COAP_INVALID_PACKET\<close>.
\<close>

theorem coapGetMessageId_signed:
  assumes len: "4 \<le> uint bufferLength"
    and mem: "4 \<le> length pBuffer"
  shows "\<exists>r. coapGetMessageId pBuffer bufferLength = Some r
           \<and> uint r = 256 * uint (pBuffer ! 2) + uint (pBuffer ! 3)
           \<and> sint r = (if uint r < 0x8000 then uint r else uint r - 65536)
           \<and> (sint r < 0) = (0x8000 \<le> uint r)"
proof -
  let ?r = "push_bit 8 (ucast (pBuffer ! 2) :: 16 word) OR ucast (pBuffer ! 3)"
  from mem have "rd pBuffer 2 = Some (pBuffer ! 2)" "rd pBuffer 3 = Some (pBuffer ! 3)"
    by (simp_all add: rd_in_range)
  with len have get: "coapGetMessageId pBuffer bufferLength = Some ?r"
    by (simp add: coapGetMessageId_def COAP_HDR_BYTES_def)
  have u: "uint ?r = 256 * uint (pBuffer ! 2) + uint (pBuffer ! 3)"
    by (rule uint_be16)
  have s: "sint ?r = (if uint ?r < 0x8000 then uint ?r else uint ?r - 65536)"
    by (rule sint16_of_uint)
  have "uint ?r < 65536"
    using uint_bounded [of ?r] by simp
  with s have n: "(sint ?r < 0) = (0x8000 \<le> uint ?r)"
    by (simp split: if_splits)
  from get u s n show ?thesis by blast
qed

theorem coapGetMessageId_signed_witness:
  "4 \<le> uint (4 :: 16 word) \<and> 4 \<le> length [0x40, 0x01, 0xFF, 0xFF :: byte]
   \<and> coapGetMessageId [0x40, 0x01, 0xFF, 0xFF] 4 = Some COAP_INVALID_PACKET
   \<and> sint (COAP_INVALID_PACKET :: 16 word) = - 1"
proof -
  have len: "4 \<le> uint (4 :: 16 word)" by simp
  have mem: "4 \<le> length [0x40, 0x01, 0xFF, 0xFF :: byte]" by simp
  from coapGetMessageId_signed [OF len mem]
  obtain r where r: "coapGetMessageId [0x40, 0x01, 0xFF, 0xFF] 4 = Some r"
    and u: "uint r = 256 * uint ([0x40, 0x01, 0xFF, 0xFF :: byte] ! 2)
                      + uint ([0x40, 0x01, 0xFF, 0xFF :: byte] ! 3)"
    by blast
  from u have "uint r = 65535" by simp
  then have "word_of_int (uint r) = (word_of_int 65535 :: 16 word)" by (rule arg_cong)
  then have "r = - 1" by simp
  with r len mem show ?thesis by (simp add: COAP_INVALID_PACKET_def)
qed

section \<open>Token-length mutator\<close>

text \<open>
  Claim C10. For every initial value \<open>b\<close> of byte 0 and every token length \<open>t\<close> from
  0 to 8, \<^verbatim>\<open>coapSetTokenLength\<close> returns \<^verbatim>\<open>COAP_OK\<close>, stores \<open>b OR (t AND 0x0F)\<close> in
  byte 0 and leaves every other byte alone, and sets the length counter to 1 whatever
  it was. The old nibble is not cleared: the token length then held by byte 0 is the
  bitwise OR of the old nibble and \<open>t\<close>.
\<close>

theorem coapSetTokenLength_ors_nibble:
  assumes t: "uint tokenLength \<le> 8"
    and mem: "pBuffer \<noteq> []"
  shows "coapSetTokenLength pBuffer bufferLength tokenLength
           = Some (COAP_OK, pBuffer[0 := (pBuffer ! 0) OR (tokenLength AND 0x0F)], 1)
         \<and> ((pBuffer ! 0) OR (tokenLength AND 0x0F)) AND 0x0F
              = ((pBuffer ! 0) AND 0x0F) OR tokenLength"
proof -
  from t have cases: "tokenLength \<in> {0, 1, 2, 3, 4, 5, 6, 7, 8}"
  proof -
    define k where "k = uint tokenLength"
    have "0 \<le> k" "k \<le> 8"
      using t by (simp_all add: k_def)
    then have "k = 0 \<or> k = 1 \<or> k = 2 \<or> k = 3 \<or> k = 4 \<or> k = 5 \<or> k = 6 \<or> k = 7 \<or> k = 8"
      by arith
    then have "(word_of_int k :: 8 word) \<in> {0, 1, 2, 3, 4, 5, 6, 7, 8}"
      by auto
    then show ?thesis by (simp add: k_def)
  qed
  then have valid: "coapTokenLengthIsValid tokenLength"
    by (auto simp: coapTokenLengthIsValid_def)
  from cases have nib: "tokenLength AND 0x0F = tokenLength"
    by auto
  from mem have "0 < length pBuffer" by simp
  then have "rd pBuffer 0 = Some (pBuffer ! 0)"
    and "\<And>v. wr pBuffer 0 v = Some (pBuffer[0 := v])"
    by (simp_all add: rd_in_range wr_in_range)
  with valid have set: "coapSetTokenLength pBuffer bufferLength tokenLength
      = Some (COAP_OK, pBuffer[0 := (pBuffer ! 0) OR (tokenLength AND 0x0F)], 1)"
    by (simp add: coapSetTokenLength_def or.commute)
  have "((pBuffer ! 0) OR (tokenLength AND 0x0F)) AND 0x0F
          = ((pBuffer ! 0) AND 0x0F) OR ((tokenLength AND 0x0F) AND 0x0F)"
    by (simp add: bit.conj_disj_distrib2)
  also have "\<dots> = ((pBuffer ! 0) AND 0x0F) OR tokenLength"
    by (simp add: nib)
  finally show ?thesis using set by simp
qed

theorem coapSetTokenLength_ors_nibble_witness:
  "uint (3 :: 8 word) \<le> 8 \<and> [0x44, 0x01, 0x12, 0x34 :: byte] \<noteq> []
   \<and> coapSetTokenLength [0x44, 0x01, 0x12, 0x34] 4 3 = Some (COAP_OK, [0x47, 0x01, 0x12, 0x34], 1)
   \<and> coapGetTokenLength [0x47, 0x01, 0x12, 0x34] 4 = Some 7"
proof -
  have t: "uint (3 :: 8 word) \<le> 8" by simp
  have mem: "[0x44, 0x01, 0x12, 0x34 :: byte] \<noteq> []" by simp
  have get: "coapGetTokenLength [0x47, 0x01, 0x12, 0x34] 4 = Some 7"
    by code_simp
  from coapSetTokenLength_ors_nibble [OF t mem, of 4] t mem get show ?thesis by simp
qed

section \<open>Payload mutator and its guard\<close>

text \<open>
  Claim C8, as stated, at a concrete input: the buffer holds the header
  \<^verbatim>\<open>40 01 12 34\<close> (token length 0), the payload is 1460 zero bytes and
  \<^verbatim>\<open>payloadLength\<close> is 1460. The capacity test comes before the look at the first
  payload byte, so the call returns \<^verbatim>\<open>COAP_INSUFFICIENT_BUFFER\<close>, not \<^verbatim>\<open>COAP_OK\<close>.
\<close>

theorem coapSetPayload_capacity_first:
  "coapSetPayload [0x40, 0x01, 0x12, 0x34, 0, 0, 0, 0] 4 1460 (replicate 1460 0) 4 4
     = Some (COAP_INSUFFICIENT_BUFFER, [0x40, 0x01, 0x12, 0x34, 0, 0, 0, 0], 4, 4)
   \<and> (COAP_INSUFFICIENT_BUFFER :: 32 word) \<noteq> COAP_OK"
  by code_simp

text \<open>
  Claim C8, amended. For every buffer whose length counter is at least 4 and whose
  token length \<open>t\<close> (the low nibble of byte 0) is at most 8, a call of
  \<^verbatim>\<open>coapSetPayload\<close> with \<open>payloadLength \<ge> 1\<close>, with
  \<open>4 + t + payloadLength \<le> 1460\<close>, and with payload data whose first byte is \<open>0x00\<close>
  returns \<^verbatim>\<open>COAP_OK\<close> and changes nothing: no marker and no payload byte is written,
  and the length counter and \<^verbatim>\<open>*pNewPointer\<close> keep their values. The guard tests the
  first payload byte, not the pointer.
\<close>

theorem coapSetPayload_zero_first_byte:
  assumes len: "4 \<le> uint bufferLength"
    and mem: "pBuffer \<noteq> []"
    and tkl: "uint (pBuffer ! 0 AND 0x0F) \<le> 8"
    and pl: "1 \<le> uint payloadLength"
    and cap: "4 + uint (pBuffer ! 0 AND 0x0F) + uint payloadLength \<le> 1460"
    and data: "pPayloadData \<noteq> []"
    and zero: "pPayloadData ! 0 = 0"
  shows "coapSetPayload pBuffer bufferLength payloadLength pPayloadData pPointer pNewPointer
           = Some (COAP_OK, pBuffer, bufferLength, pNewPointer)"
proof -
  let ?t = "pBuffer ! 0 AND 0x0F"
  from tkl have "sint ?t = uint ?t"
    by (intro sint8_of_small) simp
  with tkl have valid: "coapTokenLengthIsValid ?t"
    by (simp add: coapTokenLengthIsValid_def)
  from mem have "rd pBuffer 0 = Some (pBuffer ! 0)"
    by (simp add: rd_in_range)
  with len valid have get: "coapGetTokenLength pBuffer bufferLength = Some ?t"
    by (simp add: coapGetTokenLength_def COAP_HDR_BYTES_def)
  from data zero have first: "rd pPayloadData 0 = Some 0"
    by (simp add: rd_in_range)
  have "0 \<le> uint ?t" by simp
  with cap have small: "\<not> 1460 \<le> uint payloadLength"
    by arith
  from len pl cap small get first show ?thesis
    by (simp add: coapSetPayload_def COAP_HDR_BYTES_def MAX_BUFFER_SIZE_def)
qed

theorem coapSetPayload_zero_first_byte_witness:
  "4 \<le> uint (4 :: 16 word) \<and> [0x40, 0x01, 0x12, 0x34, 0, 0, 0, 0 :: byte] \<noteq> []
   \<and> uint ([0x40, 0x01, 0x12, 0x34, 0, 0, 0, 0 :: byte] ! 0 AND 0x0F) \<le> 8
   \<and> 1 \<le> uint (2 :: 16 word)
   \<and> 4 + uint ([0x40, 0x01, 0x12, 0x34, 0, 0, 0, 0 :: byte] ! 0 AND 0x0F) + uint (2 :: 16 word) \<le> 1460
   \<and> [0x00, 0x69 :: byte] \<noteq> [] \<and> [0x00, 0x69 :: byte] ! 0 = 0
   \<and> coapSetPayload [0x40, 0x01, 0x12, 0x34, 0, 0, 0, 0] 4 2 [0x00, 0x69] 4 4
        = Some (COAP_OK, [0x40, 0x01, 0x12, 0x34, 0, 0, 0, 0], 4, 4)"
proof -
  have len: "4 \<le> uint (4 :: 16 word)" by simp
  have mem: "[0x40, 0x01, 0x12, 0x34, 0, 0, 0, 0 :: byte] \<noteq> []" by simp
  have tkl: "uint ([0x40, 0x01, 0x12, 0x34, 0, 0, 0, 0 :: byte] ! 0 AND 0x0F) \<le> 8" by simp
  have pl: "1 \<le> uint (2 :: 16 word)" by simp
  have cap: "4 + uint ([0x40, 0x01, 0x12, 0x34, 0, 0, 0, 0 :: byte] ! 0 AND 0x0F)
               + uint (2 :: 16 word) \<le> 1460" by simp
  have data: "[0x00, 0x69 :: byte] \<noteq> []" by simp
  have zero: "[0x00, 0x69 :: byte] ! 0 = 0" by simp
  from coapSetPayload_zero_first_byte [OF len mem tkl pl cap data zero, of 4 4]
    len mem tkl pl cap data zero
  show ?thesis by blast
qed

text \<open>
  The other side of the capacity test, for every input: when the length counter is at
  least 4, the token length \<open>t\<close> is at most 8, \<open>payloadLength \<ge> 1\<close> and
  \<open>4 + t + payloadLength > 1460\<close>, the call returns \<^verbatim>\<open>COAP_INSUFFICIENT_BUFFER\<close> and
  changes nothing, whatever the payload data are.
\<close>

lemma coapSetPayload_over_capacity:
  assumes len: "4 \<le> uint bufferLength"
    and mem: "pBuffer \<noteq> []"
    and tkl: "uint (pBuffer ! 0 AND 0x0F) \<le> 8"
    and pl: "1 \<le> uint payloadLength"
    and over: "1460 < 4 + uint (pBuffer ! 0 AND 0x0F) + uint payloadLength"
  shows "coapSetPayload pBuffer bufferLength payloadLength pPayloadData pPointer pNewPointer
           = Some (COAP_INSUFFICIENT_BUFFER, pBuffer, bufferLength, pNewPointer)"
proof -
  let ?t = "pBuffer ! 0 AND 0x0F"
  from tkl have "sint ?t = uint ?t"
    by (intro sint8_of_small) simp
  with tkl have valid: "coapTokenLengthIsValid ?t"
    by (simp add: coapTokenLengthIsValid_def)
  from mem have "rd pBuffer 0 = Some (pBuffer ! 0)"
    by (simp add: rd_in_range)
  with len valid have get: "coapGetTokenLength pBuffer bufferLength = Some ?t"
    by (simp add: coapGetTokenLength_def COAP_HDR_BYTES_def)
  from len pl over get show ?thesis
    by (simp add: coapSetPayload_def COAP_HDR_BYTES_def MAX_BUFFER_SIZE_def)
qed

section \<open>Encoding and decoding again\<close>

text \<open>
  Claim C1 (round trip), evaluated at the message with version 1, type CON, empty
  token, code GET, message-id \<open>0x1234\<close>, the single option Proxy-Uri (number 35) with
  the one-byte value \<open>0x61\<close>, and no payload, encoded into a zeroed 16-byte array.
  \<^verbatim>\<open>coapSetPacketHeader\<close> and \<^verbatim>\<open>coapSetToken\<close> give \<^verbatim>\<open>40 01 12 34\<close>.
  \<^verbatim>\<open>coapAddOption\<close> returns \<^verbatim>\<open>COAP_OK\<close> with the 6 bytes \<^verbatim>\<open>40 01 12 34 D1 61\<close>: the header
  byte announces a delta extension, but the value byte has been copied over the
  extension byte \<open>0x16\<close>. Decoding that buffer, \<^verbatim>\<open>coapGetOption\<close> at index 1 yields
  option number 110 (not 35) with its value at offset 6, outside the 6 bytes in use
  (not offset 5), and at index 0 it yields no option at all: the option does not
  survive the round trip.
\<close>

theorem roundtrip_option_35_lost:
  "coapSetPacketHeader (replicate 16 0) 0 1 0 0 0x01 0x1234
     = Some (COAP_OK, [0x40, 0x01, 0x12, 0x34] @ replicate 12 0, 4)
   \<and> coapSetToken ([0x40, 0x01, 0x12, 0x34] @ replicate 12 0) 4 [] 0
     = Some (COAP_OK, [0x40, 0x01, 0x12, 0x34] @ replicate 12 0, 4)
   \<and> coapAddOption ([0x40, 0x01, 0x12, 0x34] @ replicate 12 0) 4 35 1 [0x61] 0
     = Some (COAP_OK, [0x40, 0x01, 0x12, 0x34, 0xD1, 0x61] @ replicate 10 0, 6, 6)
   \<and> coapGetOptionCount ([0x40, 0x01, 0x12, 0x34, 0xD1, 0x61] @ replicate 10 0) 6 = Some 1
   \<and> coapGetOption ([0x40, 0x01, 0x12, 0x34, 0xD1, 0x61] @ replicate 10 0) 6 1
     = Some (1, Some 110, Some 6)
   \<and> coapGetOption ([0x40, 0x01, 0x12, 0x34, 0xD1, 0x61] @ replicate 10 0) 6 0
     = Some (0, None, None)"
  by code_simp

text \<open>
  The code does not survive the round trip either when it is \<open>0x80\<close> or more:
  \<^verbatim>\<open>coapSetPacketHeader\<close> stores the response code 4.00 (\<open>0x80\<close>), and
  \<^verbatim>\<open>coapGetCode\<close>, which keeps the byte in an \<^verbatim>\<open>int8_t\<close>, answers
  \<^verbatim>\<open>COAP_UNKNOWN_CODE\<close>.
\<close>

lemma roundtrip_code_0x80_lost:
  "coapSetPacketHeader (replicate 16 0) 0 1 2 0 0x80 0x1234
     = Some (COAP_OK, [0x60, 0x80, 0x12, 0x34] @ replicate 12 0, 4)
   \<and> coapGetCode ([0x60, 0x80, 0x12, 0x34] @ replicate 12 0) 4 = Some COAP_UNKNOWN_CODE"
  by code_simp

text \<open>
  The parts of the round trip that the code does perform, on the scenarios of the
  specification: header \<^verbatim>\<open>40 01 12 34\<close>, two Uri-Path options \<^verbatim>\<open>B1 61 01 62\<close>, and the
  payload \<^verbatim>\<open>FF 68 69\<close> read back as 2 bytes at offset 9.
\<close>

lemma encode_scenarios:
  "coapAddOption ([0x40, 0x01, 0x12, 0x34] @ replicate 12 0) 4 11 1 [0x61] 0
     = Some (COAP_OK, [0x40, 0x01, 0x12, 0x34, 0xB1, 0x61] @ replicate 10 0, 6, 6)
   \<and> coapAddOption ([0x40, 0x01, 0x12, 0x34, 0xB1, 0x61] @ replicate 10 0) 6 11 1 [0x62] 6
     = Some (COAP_OK, [0x40, 0x01, 0x12, 0x34, 0xB1, 0x61, 0x01, 0x62] @ replicate 8 0, 8, 8)
   \<and> coapSetPayload ([0x40, 0x01, 0x12, 0x34, 0xB1, 0x61, 0x01, 0x62] @ replicate 8 0) 8 2
        [0x68, 0x69] 8 8
     = Some (COAP_OK, [0x40, 0x01, 0x12, 0x34, 0xB1, 0x61, 0x01, 0x62, 0xFF, 0x68, 0x69]
                        @ replicate 5 0, 11, 11)
   \<and> coapGetPayload ([0x40, 0x01, 0x12, 0x34, 0xB1, 0x61, 0x01, 0x62, 0xFF, 0x68, 0x69]
                        @ replicate 5 0) 11
     = Some (2, Some 9)"
  by code_simp

section \<open>Validation\<close>

text \<open>
  Claim C2, evaluated at two buffers. The 4-byte buffer \<^verbatim>\<open>40 05 12 34\<close> has the code
  byte \<open>0x05\<close>, which is not in the enumerated set (\<^verbatim>\<open>coapGetCode\<close> answers
  \<^verbatim>\<open>COAP_UNKNOWN_CODE\<close>), yet \<^verbatim>\<open>coapValidatePacket\<close> returns \<^verbatim>\<open>COAP_OK\<close>: its code
  test looks at the message type. The 5-byte buffer \<^verbatim>\<open>40 01 12 34 0F\<close> has a malformed
  option region (\<^verbatim>\<open>coapGetOptionCount\<close> answers \<^verbatim>\<open>COAP_INVALID_PACKET\<close>), yet
  \<^verbatim>\<open>coapValidatePacket\<close> returns \<^verbatim>\<open>COAP_OK\<close>: on a negative count it returns
  \<^verbatim>\<open>false\<close>.
\<close>

theorem coapValidatePacket_unknown_code_accepted:
  "coapGetCode [0x40, 0x05, 0x12, 0x34] 4 = Some COAP_UNKNOWN_CODE
   \<and> coapValidatePacket [0x40, 0x05, 0x12, 0x34] 4 = Some COAP_OK
   \<and> coapGetOptionCount [0x40, 0x01, 0x12, 0x34, 0x0F] 5 = Some COAP_INVALID_PACKET
   \<and> coapValidatePacket [0x40, 0x01, 0x12, 0x34, 0x0F] 5 = Some COAP_OK"
  by code_simp

text \<open>
  For a buffer of exactly 4 bytes the result of \<^verbatim>\<open>coapValidatePacket\<close> does not depend
  on the code byte at all: overwriting byte 1 with any value leaves it the same.
\<close>

lemma coapValidatePacket_ignores_code:
  assumes "uint bufferLength = 4"
  shows "coapValidatePacket (pBuffer[1 := c]) bufferLength = coapValidatePacket pBuffer bufferLength"
proof -
  have rd0: "rd (pBuffer[1 := c]) 0 = rd pBuffer 0"
    by (simp add: rd_def)
  have "coapGetVersion (pBuffer[1 := c]) bufferLength = coapGetVersion pBuffer bufferLength"
    and "coapGetType (pBuffer[1 := c]) bufferLength = coapGetType pBuffer bufferLength"
    and "coapGetTokenLength (pBuffer[1 := c]) bufferLength = coapGetTokenLength pBuffer bufferLength"
    by (simp_all only: coapGetVersion_def coapGetType_def coapGetTokenLength_def rd0)
  then have "coapValidatePacket_header (pBuffer[1 := c]) bufferLength
               = coapValidatePacket_header pBuffer bufferLength"
    by (simp only: coapValidatePacket_header_def)
  with assms show ?thesis
    by (simp add: coapValidatePacket_def COAP_HDR_BYTES_def)
qed

text \<open>
  Claim C7, evaluated at two buffers in which a nibble is 15 in a byte that is not the
  payload marker. In \<^verbatim>\<open>40 01 12 34 F0\<close> (5 bytes in use) the delta nibble of the first
  option is 15; in \<^verbatim>\<open>40 01 12 34 00 1F\<close> (6 bytes in use) the length nibble of the second
  option is 15. \<^verbatim>\<open>coapValidatePacket\<close> returns \<^verbatim>\<open>COAP_OK\<close> for both, not
  \<^verbatim>\<open>COAP_INVALID_PACKET\<close>.
\<close>

theorem coapValidatePacket_nibble_15_accepted:
  "coapValidatePacket [0x40, 0x01, 0x12, 0x34, 0xF0, 0x00] 5 = Some COAP_OK
   \<and> coapValidatePacket [0x40, 0x01, 0x12, 0x34, 0x00, 0x1F] 6 = Some COAP_OK
   \<and> (COAP_OK :: 8 word) \<noteq> COAP_INVALID_PACKET"
  by code_simp

text \<open>
  The second half of claim C7 holds: a buffer of fewer than 4 bytes is answered with
  \<^verbatim>\<open>COAP_INVALID_PACKET\<close>, without any access to the array.
\<close>

lemma coapValidatePacket_short:
  assumes "uint bufferLength < 4"
  shows "coapValidatePacket pBuffer bufferLength = Some COAP_INVALID_PACKET"
proof -
  from assms have "coapGetVersion pBuffer bufferLength = Some COAP_INVALID_PACKET"
    by (simp add: coapGetVersion_def COAP_HDR_BYTES_def)
  moreover have "\<not> coapVersionIsValid COAP_INVALID_PACKET"
    by (simp add: coapVersionIsValid_def COAP_INVALID_PACKET_def COAP_VERSION_def)
  ultimately have "coapValidatePacket_header pBuffer bufferLength = Some (Some COAP_INVALID_PACKET)"
    by (simp add: coapValidatePacket_header_def)
  with assms show ?thesis
    by (simp add: coapValidatePacket_def COAP_HDR_BYTES_def)
qed

section \<open>Walking the option region\<close>

text \<open>
  Claim C3, evaluated at a buffer with exactly one option: header \<^verbatim>\<open>40 01 12 34\<close>, then
  the option header \<^verbatim>\<open>0E 00 00\<close> (delta 0, length nibble 14, extension \<open>0x0000\<close>, that
  is a value of 269 bytes), then 269 zero bytes of value: 276 bytes in use, in an
  array of 277. \<^verbatim>\<open>coapGetOptionCount\<close> answers 244, not 1: case \<^verbatim>\<open>0x0E\<close> counts the
  option, reads one extension byte into a \<^verbatim>\<open>uint8_t\<close>, runs on into case \<^verbatim>\<open>0x0D\<close>,
  which counts it again, and the walk then takes the remaining value bytes for option
  headers. In an array of exactly 276 bytes the same call reads the byte after the
  array.
\<close>

theorem coapGetOptionCount_two_byte_escape:
  "coapGetOptionCount ([0x40, 0x01, 0x12, 0x34, 0x0E, 0x00, 0x00] @ replicate 269 0 @ [0]) 276
     = Some 244
   \<and> coapGetOptionCount ([0x40, 0x01, 0x12, 0x34, 0x0E, 0x00, 0x00] @ replicate 269 0) 276
     = None"
  by code_simp

text \<open>
  Claim C4, evaluated at the buffer \<^verbatim>\<open>40 01 12 34 B1 61 01 62\<close>: two options, no marker,
  8 bytes in use. The claim's case (b) asks for an empty payload. The walk of
  \<^verbatim>\<open>coapGetPayload\<close> does not stop at the end of the 8 bytes. In a 16-byte array
  whose other bytes are zero it runs until it reads outside the array; when the bytes
  after the packet are \<^verbatim>\<open>00 FF 00\<close> it returns \<open>-2\<close> with a payload pointer at offset
  10; when the next byte is \<^verbatim>\<open>0F\<close> it returns \<^verbatim>\<open>COAP_INVALID_PACKET\<close>. And for
  \<^verbatim>\<open>40 01 12 34 FF\<close>, a marker with no byte after it, it returns length 0 with a
  payload pointer, not \<^verbatim>\<open>COAP_INVALID_PACKET\<close>.
\<close>

theorem coapGetPayload_no_marker:
  "coapGetPayload ([0x40, 0x01, 0x12, 0x34, 0xB1, 0x61, 0x01, 0x62] @ replicate 8 0) 8 = None
   \<and> coapGetPayload [0x40, 0x01, 0x12, 0x34, 0xB1, 0x61, 0x01, 0x62, 0x00, 0xFF, 0x00] 8
     = Some (- 2, Some 10)
   \<and> coapGetPayload [0x40, 0x01, 0x12, 0x34, 0xB1, 0x61, 0x01, 0x62, 0x0F] 8
     = Some (COAP_INVALID_PACKET, None)
   \<and> coapGetPayload [0x40, 0x01, 0x12, 0x34, 0xFF] 5 = Some (0, Some 5)"
  by code_simp

text \<open>
  Claim C5, evaluated with the pointer at offset 4 of a 5-byte array and a remaining
  length of 1. For the option byte \<open>0xD0\<close> (delta nibble 13) \<^verbatim>\<open>coapDecodeOption\<close>
  reads the extension byte at offset 5, outside the array. In a 6-byte array, still
  with a remaining length of 1, it returns the option number 30 taken from the byte at
  offset 5, beyond the length it was given. For the option byte \<open>0x05\<close> (length 5,
  no value bytes present) it returns the length 5 and a new pointer at offset 10, not
  \<^verbatim>\<open>COAP_INVALID_PACKET\<close>.
\<close>

theorem coapDecodeOption_unchecked_reads:
  "coapDecodeOption [0x40, 0x01, 0x12, 0x34, 0xD0] 4 1 0 = None
   \<and> coapDecodeOption [0x40, 0x01, 0x12, 0x34, 0xD0, 0x11] 4 1 0 = Some (0, Some (30, 6, 6))
   \<and> coapDecodeOption [0x40, 0x01, 0x12, 0x34, 0x05] 4 1 0 = Some (5, Some (0, 5, 10))"
  by code_simp

section \<open>Option order\<close>




text \<open>
  Outside those bounds the order test is lost to the widths of the locals; the three
  evaluations below record it and are no part of the amended claim.

  When the new number is smaller by 129 or more, the difference no longer fits the
  \<^verbatim>\<open>int8_t\<close> it is kept in. The buffer
  \<^verbatim>\<open>40 01 00 00 C0 C0 C0 C0 C0 C0 C0 C0 C0 C0 B0\<close> (15 bytes in use, in an array of 20)
  holds eleven empty options with the numbers 12, 24, ..., 120 and 131, and
  \<^verbatim>\<open>coapGetOption\<close> reports 131 as the last number. Appending option number 1 returns
  \<^verbatim>\<open>COAP_OK\<close>, writes \<^verbatim>\<open>D0 F4\<close> at offsets 15 and 16 and moves the length counter to 16:
  the difference \<open>1 - 131\<close> has become \<open>126\<close>.
\<close>

lemma coapAddOption_wrapped_difference:
  "coapGetOptionCount
     ([0x40, 0x01, 0x00, 0x00, 0xC0, 0xC0, 0xC0, 0xC0, 0xC0, 0xC0, 0xC0, 0xC0, 0xC0, 0xC0, 0xB0]
        @ replicate 5 0) 15 = Some 11
   \<and> coapGetOption
     ([0x40, 0x01, 0x00, 0x00, 0xC0, 0xC0, 0xC0, 0xC0, 0xC0, 0xC0, 0xC0, 0xC0, 0xC0, 0xC0, 0xB0]
        @ replicate 5 0) 15 11 = Some (0, Some 131, Some 15)
   \<and> coapBuildOptionHeaderLength 1 0 131 = 2
   \<and> coapAddOption
     ([0x40, 0x01, 0x00, 0x00, 0xC0, 0xC0, 0xC0, 0xC0, 0xC0, 0xC0, 0xC0, 0xC0, 0xC0, 0xC0, 0xB0]
        @ replicate 5 0) 15 1 0 [] 15
     = Some (COAP_OK,
             [0x40, 0x01, 0x00, 0x00, 0xC0, 0xC0, 0xC0, 0xC0, 0xC0, 0xC0, 0xC0, 0xC0, 0xC0, 0xC0, 0xB0,
              0xD0, 0xF4] @ replicate 3 0, 16, 16)"
  by code_simp

text \<open>
  That buffer is one the encoder itself produces: eleven calls of \<^verbatim>\<open>coapAddOption\<close>
  with the numbers 12, 24, ..., 120, 131 and empty values, each returning \<^verbatim>\<open>COAP_OK\<close>.
\<close>

lemma coapAddOption_builds_131:
  "add_empty_options ([0x40, 0x01, 0x00, 0x00] @ replicate 16 0) 4 0
       [12, 24, 36, 48, 60, 72, 84, 96, 108, 120, 131]
     = Some (COAP_OK,
             [0x40, 0x01, 0x00, 0x00, 0xC0, 0xC0, 0xC0, 0xC0, 0xC0, 0xC0, 0xC0, 0xC0, 0xC0, 0xC0, 0xB0]
               @ replicate 5 0, 15, 15)"
  by code_simp

text \<open>
  When the buffer holds 128 options (here 128 bytes \<open>0x10\<close>: delta 1, length 0), the
  count no longer fits the \<^verbatim>\<open>int8_t\<close> it is kept in, and \<^verbatim>\<open>coapAddOption\<close> returns
  the narrowed count, \<open>-128\<close>, as if it were an error code.
\<close>

lemma coapAddOption_count_128:
  "coapGetOptionCount ([0x40, 0x01, 0x00, 0x00] @ replicate 128 0x10 @ [0]) 132 = Some 128
   \<and> coapAddOption ([0x40, 0x01, 0x00, 0x00] @ replicate 128 0x10 @ [0]) 132 1 0 [] 132
     = Some (- 128, [0x40, 0x01, 0x00, 0x00] @ replicate 128 0x10 @ [0], 132, 132)"
  by code_simp

text \<open>
  When the last option was appended with an extended delta, the buffer does not hold
  its number (see the round trip above). After Size1 (number 60) with the value
  \<open>0x04\<close> the buffer is \<^verbatim>\<open>40 01 12 34 D1 04\<close>, \<^verbatim>\<open>coapGetOption\<close> reports the number 17,
  and appending Location-Query (number 20) returns \<^verbatim>\<open>COAP_OK\<close> and writes \<^verbatim>\<open>31 78\<close>.
\<close>

lemma coapAddOption_after_extended_delta:
  "coapAddOption ([0x40, 0x01, 0x12, 0x34] @ replicate 12 0) 4 60 1 [0x04] 0
     = Some (COAP_OK, [0x40, 0x01, 0x12, 0x34, 0xD1, 0x04] @ replicate 10 0, 6, 6)
   \<and> coapGetOption ([0x40, 0x01, 0x12, 0x34, 0xD1, 0x04] @ replicate 10 0) 6 1
     = Some (1, Some 17, Some 6)
   \<and> coapAddOption ([0x40, 0x01, 0x12, 0x34, 0xD1, 0x04] @ replicate 10 0) 6 20 1 [0x78] 6
     = Some (COAP_OK, [0x40, 0x01, 0x12, 0x34, 0xD1, 0x04, 0x31, 0x78] @ replicate 8 0, 8, 8)"
  by code_simp

end
